theory Spec2Isabelle
  imports Complex_Main "HOL-Library.Word"
begin

text \<open>
  The AI Invoice Analyzer (\<open>main.py\<close>): the endpoint \<open>POST /analyze-invoice\<close> takes an
  uploaded PDF or image, asks a chat completion model for the invoice data as JSON, validates
  the reply against the schema \<open>InvoiceData\<close>, normalizes the amount and returns the record.
  The model below follows the source function by function; the libraries the source calls are
  parameters.
\<close>

section \<open>Data model\<close>

text \<open>
  A Python \<open>float\<close> is an IEEE double: a signed finite value \<open>m * 2 ^ e\<close> with a natural
  mantissa and an integer exponent, a signed infinity, or NaN. \<open>Finite neg m e\<close> stands for
  \<open>(if neg then -1 else 1) * m * 2 ^ e\<close>; the sign is kept apart so that negative zero has a
  representation. Every double is a value of this type (the type has more values than there are
  doubles, so what is proved for all of them holds for every double).
\<close>

datatype pyfloat = Finite bool nat int | Infinity bool | NaN

text \<open>The field \<open>total_amount: Union[str, float]\<close>.\<close>

datatype amount = AStr string | AFloat pyfloat

text \<open>The pydantic class \<open>InvoiceData\<close>; \<open>Optional[str]\<close> is \<open>string option\<close>.\<close>

record InvoiceData =
  vendor :: "string option"
  invoice_number :: "string option"
  invoice_date :: "string option"
  due_date :: "string option"
  total_amount :: amount
  currency :: "string option"
  valid :: bool

section \<open>Formatting a float with the format specification \<open>.2f\<close>\<close>

definition digit_char :: "nat \<Rightarrow> char" where
  "digit_char d = ''0123456789'' ! d"

fun show_nat :: "nat \<Rightarrow> string" where
  "show_nat n = (if n < 10 then [digit_char n] else show_nat (n div 10) @ [digit_char (n mod 10)])"

declare show_nat.simps [simp del]

text \<open>\<open>n / d\<close> rounded to the nearest natural, a tie going to the even neighbour.\<close>

definition round_half_even :: "nat \<Rightarrow> nat \<Rightarrow> nat" where
  "round_half_even n d =
     (let q = n div d; r = n mod d
      in if d < 2 * r \<or> (2 * r = d \<and> odd q) then q + 1 else q)"

text \<open>The magnitude \<open>m * 2 ^ e\<close> in hundredths, correctly rounded.\<close>

definition hundredths :: "nat \<Rightarrow> int \<Rightarrow> nat" where
  "hundredths m e =
     (if 0 \<le> e then m * 100 * 2 ^ nat e else round_half_even (m * 100) (2 ^ nat (- e)))"

definition format_2f :: "pyfloat \<Rightarrow> string" where
  "format_2f x =
     (case x of
        Finite neg m e \<Rightarrow>
          (let q = hundredths m e
           in (if neg then ''-'' else '''') @ show_nat (q div 100) @ ''.'' @
              [digit_char (q mod 100 div 10), digit_char (q mod 10)])
      | Infinity neg \<Rightarrow> (if neg then ''-inf'' else ''inf'')
      | NaN \<Rightarrow> ''nan'')"

section \<open>The Normalizer\<close>

text \<open>
  \<open>normalize_invoice\<close> assigns to \<open>data.total_amount\<close> when it is a float and returns the
  same object; the model returns the updated record.
\<close>

definition normalize_invoice :: "InvoiceData \<Rightarrow> InvoiceData" where
  "normalize_invoice data =
     (case total_amount data of
        AFloat x \<Rightarrow> data\<lparr>total_amount := AStr (format_2f x)\<rparr>
      | AStr s \<Rightarrow> data)"

section \<open>Collaborators outside the program\<close>

type_synonym bytes = "8 word list"

text \<open>
  A parsed JSON document; an object is the list of its members in the order of the document,
  in which a name may occur more than once.
\<close>

datatype json =
    JNull
  | JBool bool
  | JInt int
  | JFloat pyfloat
  | JStr string
  | JArr "json list"
  | JObj "(string \<times> json) list"

text \<open>One entry of a pydantic \<open>ValidationError\<close>: the field it is about and what went wrong.\<close>

datatype error_kind = Missing | WrongType | ModelType | JsonInvalid string | JsonType

datatype line_error = LineError string error_kind

text \<open>The arguments of \<open>client.chat.completions.create\<close>.\<close>

datatype content_part = TextPart string | ImageUrlPart string

datatype message_content = Text string | Parts "content_part list"

record message =
  role :: string
  content :: message_content

record chat_request =
  model :: string
  messages :: "message list"
  temperature :: int

text \<open>
  What the program calls and does not define: the environment variable \<open>MODEL_NAME\<close>, PyMuPDF
  (\<open>fitz.open\<close> and the text of each page, or the message of the exception it raises), Python's
  whitespace test behind \<open>str.strip\<close>, \<open>base64.b64encode\<close>, the chat completion client (the
  message contents of the returned choices, or the message of the exception it raises), and
  pydantic: its JSON parser, its conversion of a JSON integer to a float, its lax-mode
  coercions of other JSON values to \<open>float\<close> and to \<open>bool\<close>, and the text of a
  \<open>ValidationError\<close>. They are parameters of the model; every theorem holds for all of them.
  None of these libraries raises FastAPI's \<open>HTTPException\<close>.
\<close>

record library =
  MODEL_NAME :: string
  fitz_pages :: "bytes \<Rightarrow> string + string list"
  isspace :: "char \<Rightarrow> bool"
  b64encode :: "bytes \<Rightarrow> string"
  chat_create :: "chat_request \<Rightarrow> string + string option list"
  json_loads :: "string \<Rightarrow> string + json"
  int_as_float :: "int \<Rightarrow> pyfloat"
  lax_float :: "json \<Rightarrow> pyfloat option"
  lax_bool :: "json \<Rightarrow> bool option"
  validation_message :: "line_error list \<Rightarrow> string"

section \<open>The Response Validator: \<open>InvoiceData.model_validate_json\<close>\<close>

text \<open>
  A field of type \<open>Optional[str]\<close> with a default: the default when the key is absent,
  \<open>None\<close> for \<open>null\<close>, the string for a string, an error for anything else.
\<close>

definition validate_optional_str :: "json option \<Rightarrow> string option \<Rightarrow> error_kind + string option" where
  "validate_optional_str v dflt =
     (case v of
        None \<Rightarrow> Inr dflt
      | Some JNull \<Rightarrow> Inr None
      | Some (JStr s) \<Rightarrow> Inr (Some s)
      | Some _ \<Rightarrow> Inl WrongType)"

text \<open>
  \<open>total_amount: Union[str, float]\<close> has no default, so it is required. A string stays a
  string, a number becomes a float, any other value goes through the lax coercion to float.
\<close>

definition validate_total_amount :: "library \<Rightarrow> json option \<Rightarrow> error_kind + amount" where
  "validate_total_amount lib v =
     (case v of
        None \<Rightarrow> Inl Missing
      | Some (JStr s) \<Rightarrow> Inr (AStr s)
      | Some (JFloat x) \<Rightarrow> Inr (AFloat x)
      | Some (JInt n) \<Rightarrow> Inr (AFloat (int_as_float lib n))
      | Some j \<Rightarrow> (case lax_float lib j of None \<Rightarrow> Inl WrongType | Some x \<Rightarrow> Inr (AFloat x)))"

text \<open>\<open>valid: bool = True\<close>.\<close>

definition validate_bool :: "library \<Rightarrow> json option \<Rightarrow> bool \<Rightarrow> error_kind + bool" where
  "validate_bool lib v dflt =
     (case v of
        None \<Rightarrow> Inr dflt
      | Some (JBool b) \<Rightarrow> Inr b
      | Some j \<Rightarrow> (case lax_bool lib j of None \<Rightarrow> Inl WrongType | Some b \<Rightarrow> Inr b))"

definition field :: "string \<Rightarrow> error_kind + 'a \<Rightarrow> line_error list + 'a" where
  "field name r = (case r of Inl k \<Rightarrow> Inl [LineError name k] | Inr x \<Rightarrow> Inr x)"

text \<open>pydantic validates every field and reports all the errors together.\<close>

fun ap :: "line_error list + ('a \<Rightarrow> 'b) \<Rightarrow> line_error list + 'a \<Rightarrow> line_error list + 'b" where
  "ap (Inr f) (Inr x) = Inr (f x)"
| "ap (Inr f) (Inl es) = Inl es"
| "ap (Inl es) (Inr x) = Inl es"
| "ap (Inl es) (Inl es') = Inl (es @ es')"

definition mk_InvoiceData ::
  "string option \<Rightarrow> string option \<Rightarrow> string option \<Rightarrow> string option \<Rightarrow> amount \<Rightarrow>
   string option \<Rightarrow> bool \<Rightarrow> InvoiceData" where
  "mk_InvoiceData v n d dd t c va =
     \<lparr>vendor = v, invoice_number = n, invoice_date = d, due_date = dd, total_amount = t,
      currency = c, valid = va\<rparr>"

definition validate_fields :: "library \<Rightarrow> (string \<Rightarrow> json option) \<Rightarrow> line_error list + InvoiceData" where
  "validate_fields lib d =
     ap (ap (ap (ap (ap (ap (ap (Inr mk_InvoiceData)
       (field ''vendor'' (validate_optional_str (d ''vendor'') None)))
       (field ''invoice_number'' (validate_optional_str (d ''invoice_number'') None)))
       (field ''invoice_date'' (validate_optional_str (d ''invoice_date'') None)))
       (field ''due_date'' (validate_optional_str (d ''due_date'') None)))
       (field ''total_amount'' (validate_total_amount lib (d ''total_amount''))))
       (field ''currency'' (validate_optional_str (d ''currency'') (Some ''USD''))))
       (field ''valid'' (validate_bool lib (d ''valid'') True))"

text \<open>
  The value of a name in an object: of several members with the same name the last one counts,
  as in the dictionary the parser fills member by member.
\<close>

definition get_member :: "(string \<times> json) list \<Rightarrow> string \<Rightarrow> json option" where
  "get_member kvs k = map_of (rev kvs) k"

text \<open>Only a JSON object is a model; keys that are no field are ignored.\<close>

definition validate_model :: "library \<Rightarrow> json \<Rightarrow> line_error list + InvoiceData" where
  "validate_model lib j =
     (case j of
        JObj kvs \<Rightarrow> validate_fields lib (get_member kvs)
      | _ \<Rightarrow> Inl [LineError [] ModelType])"

text \<open>
  \<open>model_validate_json\<close> on the message content, which may be \<open>None\<close>. \<open>Inl\<close> is the text
  of the exception raised.
\<close>

definition model_validate_json :: "library \<Rightarrow> string option \<Rightarrow> string + InvoiceData" where
  "model_validate_json lib result =
     (case result of
        None \<Rightarrow> Inl (validation_message lib [LineError [] JsonType])
      | Some s \<Rightarrow>
          (case json_loads lib s of
             Inl msg \<Rightarrow> Inl (validation_message lib [LineError [] (JsonInvalid msg)])
           | Inr j \<Rightarrow>
               (case validate_model lib j of
                  Inl errs \<Rightarrow> Inl (validation_message lib errs)
                | Inr invoice \<Rightarrow> Inr invoice)))"

section \<open>The Text Extractor\<close>

definition strip :: "library \<Rightarrow> string \<Rightarrow> string" where
  "strip lib s = rev (dropWhile (isspace lib) (rev (dropWhile (isspace lib) s)))"

definition extract_text_from_pdf :: "library \<Rightarrow> bytes \<Rightarrow> string + string" where
  "extract_text_from_pdf lib pdf_bytes =
     (case fitz_pages lib pdf_bytes of
        Inl msg \<Rightarrow> Inl msg
      | Inr doc \<Rightarrow> Inr (strip lib (foldl (\<lambda>text page. text @ page) [] doc)))"

section \<open>The prompt\<close>

definition prompt_lines :: "string list" where
  "prompt_lines =
    ['''',
     ''You are an AI system specialized in parsing invoices and receipts from BOTH'',
     ''IMAGES and PDF DOCUMENTS.'',
     '''',
     ''Your task:'',
     ''Carefully read ALL visible or extracted text, including:'',
     ''- Company / Store / Seller name'',
     ''- Logo text'',
     ''- Header text at the top of the document'',
     ''- Footer text'',
     ''- Invoice metadata blocks'',
     ''- Total and payment sections'',
     '''',
     ''VENDOR EXTRACTION (VERY IMPORTANT):'',
     ''- The vendor is the STORE / COMPANY / SELLER issuing the invoice.'',
     ''- It is usually the MOST PROMINENT business name.'',
     ''- It is often located at the TOP of the image or the FIRST lines of the PDF text.'',
     ''- If text such as '' @ [CHR 0x22] @ ''Seller'' @ [CHR 0x22] @ '', '' @ [CHR 0x22] @ ''Store'' @ [CHR 0x22] @ '', '' @ [CHR 0x22] @ ''Ltd'' @ [CHR 0x22] @ '', or similar appears,'',
     ''  that MUST be returned as the vendor.'',
     ''- Ignore customer names, delivery names, and payment gateways.'',
     '''',
     ''Extract and return ONLY valid JSON with the following fields:'',
     ''- vendor (string or null)'',
     ''- invoice_number (string or null)'',
     ''- invoice_date (string or null, format YYYY-MM-DD if possible)'',
     ''- due_date (string or null, format YYYY-MM-DD if possible)'',
     ''- total_amount (string or number)'',
     ''- currency (ISO 4217 code like USD, BDT, EUR if visible; otherwise null)'',
     ''- valid (true or false)'',
     '''',
     ''Rules:'',
     ''- Use null if a field is missing or not clearly visible.'',
     ''- Do NOT guess values.'',
     ''- Do NOT hallucinate.'',
     ''- If critical fields like vendor or total_amount are missing,'',
     ''  set valid to false.'',
     ''- Do NOT include explanations or extra text.'',
     ''- Output MUST be valid JSON ONLY.'',
     '''',
     '''',
     '''']"

fun join_lines :: "string list \<Rightarrow> string" where
  "join_lines [] = []"
| "join_lines [l] = l"
| "join_lines (l # ls) = l @ [CHR 0x0A] @ join_lines ls"

definition prompt :: string where
  "prompt = join_lines prompt_lines"

section \<open>The request handler\<close>

record UploadFile =
  content_type :: "string option"
  file_content :: bytes

text \<open>
  An exception is FastAPI's \<open>HTTPException\<close> with its status code and detail, or any other
  exception, of which the handler uses only \<open>str(e)\<close>.
\<close>

datatype exn = HTTPException nat string | Exception string

text \<open>What a request does to the outside, in order.\<close>

datatype event = FileRead | ExtractText | ChatCreate chat_request

definition pdf_request :: "library \<Rightarrow> string \<Rightarrow> chat_request" where
  "pdf_request lib extracted_text =
     \<lparr>model = MODEL_NAME lib,
      messages =
        [\<lparr>role = ''system'', content = Text ''You extract invoice data from text.''\<rparr>,
         \<lparr>role = ''user'',
          content = Text (prompt @ [CHR 0x0A, CHR 0x0A] @ ''INVOICE TEXT:'' @ [CHR 0x0A] @ extracted_text)\<rparr>],
      temperature = 0\<rparr>"

text \<open>An f-string prints \<open>None\<close> as the word.\<close>

definition str_of :: "string option \<Rightarrow> string" where
  "str_of v = (case v of None \<Rightarrow> ''None'' | Some s \<Rightarrow> s)"

definition image_request :: "library \<Rightarrow> string option \<Rightarrow> string \<Rightarrow> chat_request" where
  "image_request lib ctype encoded_image =
     \<lparr>model = MODEL_NAME lib,
      messages =
        [\<lparr>role = ''system'', content = Text ''You extract invoice data from images.''\<rparr>,
         \<lparr>role = ''user'',
          content = Parts [TextPart prompt,
                           ImageUrlPart (''data:'' @ str_of ctype @ '';base64,'' @ encoded_image)]\<rparr>],
      temperature = 0\<rparr>"

text \<open>
  Lines 176 to 178: the content of the first choice, validated and normalized. An empty list
  of choices raises \<open>IndexError\<close>.
\<close>

definition parse_response :: "library \<Rightarrow> string option list \<Rightarrow> exn + InvoiceData" where
  "parse_response lib choices =
     (case choices of
        [] \<Rightarrow> Inl (Exception ''list index out of range'')
      | result # _ \<Rightarrow>
          (case model_validate_json lib result of
             Inl msg \<Rightarrow> Inl (Exception msg)
           | Inr invoice \<Rightarrow> Inr (normalize_invoice invoice)))"

definition query_model :: "library \<Rightarrow> chat_request \<Rightarrow> exn + InvoiceData" where
  "query_model lib req =
     (case chat_create lib req of
        Inl msg \<Rightarrow> Inl (Exception msg)
      | Inr choices \<Rightarrow> parse_response lib choices)"

text \<open>The body of the \<open>try\<close> statement, with the events it causes.\<close>

definition try_body :: "library \<Rightarrow> UploadFile \<Rightarrow> bytes \<Rightarrow> event list \<times> (exn + InvoiceData)" where
  "try_body lib file file_bytes =
     (if content_type file = Some ''application/pdf'' then
        (case extract_text_from_pdf lib file_bytes of
           Inl msg \<Rightarrow> ([ExtractText], Inl (Exception msg))
         | Inr extracted_text \<Rightarrow>
             if extracted_text = [] then
               ([ExtractText],
                Inl (HTTPException 400 ''No readable text found in PDF (possibly scanned)''))
             else
               (let req = pdf_request lib extracted_text
                in ([ExtractText, ChatCreate req], query_model lib req)))
      else
        (let encoded_image = b64encode lib file_bytes;
             req = image_request lib (content_type file) encoded_image
         in ([ChatCreate req], query_model lib req)))"

text \<open>The two \<open>except\<close> clauses.\<close>

definition except_clauses :: "exn + InvoiceData \<Rightarrow> exn + InvoiceData" where
  "except_clauses r =
     (case r of
        Inl (HTTPException status detail) \<Rightarrow> Inl (HTTPException status detail)
      | Inl (Exception msg) \<Rightarrow> Inl (HTTPException 500 msg)
      | Inr invoice \<Rightarrow> Inr invoice)"

definition allowed_types :: "string list" where
  "allowed_types = [''image/png'', ''image/jpeg'', ''application/pdf'']"

definition analyze_invoice :: "library \<Rightarrow> UploadFile \<Rightarrow> event list \<times> (exn + InvoiceData)" where
  "analyze_invoice lib file =
     (if content_type file \<notin> set (map Some allowed_types) then
        ([], Inl (HTTPException 400 ''Unsupported file type''))
      else
        (let file_bytes = file_content file;
             (evs, r) = try_body lib file file_bytes
         in (FileRead # evs, except_clauses r)))"

section \<open>A fake library and sample uploads\<close>

text \<open>
  The collaborators are faked deterministically: a client that returns a fixed answer, a JSON
  parser that knows five documents, a PDF reader that knows two files.
\<close>

definition quoted :: "string \<Rightarrow> string" where
  "quoted s = CHR 0x22 # s @ [CHR 0x22]"

text \<open>The reply of the happy path, with \<open>total_amount\<close> the number \<open>250.0\<close>.\<close>

definition reply_acme :: string where
  "reply_acme =
     ''{'' @ quoted ''vendor'' @ '':'' @ quoted ''Acme Ltd'' @ '','' @ quoted ''invoice_number'' @ '':'' @ quoted ''1001'' @
     '','' @ quoted ''invoice_date'' @ '':null,'' @ quoted ''due_date'' @ '':null,'' @ quoted ''total_amount'' @
     '':250.0,'' @ quoted ''currency'' @ '':'' @ quoted ''USD'' @ '','' @ quoted ''valid'' @ '':true}''"

definition json_acme :: json where
  "json_acme =
     JObj [(''vendor'', JStr ''Acme Ltd''), (''invoice_number'', JStr ''1001''),
           (''invoice_date'', JNull), (''due_date'', JNull),
           (''total_amount'', JFloat (Finite False 250 0)), (''currency'', JStr ''USD''),
           (''valid'', JBool True)]"

text \<open>A reply without \<open>total_amount\<close>.\<close>

definition reply_no_amount :: string where
  "reply_no_amount = ''{'' @ quoted ''vendor'' @ '':'' @ quoted ''Acme Ltd'' @ ''}''"

definition json_no_amount :: json where
  "json_no_amount = JObj [(''vendor'', JStr ''Acme Ltd'')]"

text \<open>A reply without \<open>currency\<close>, the amount an integer.\<close>

definition reply_no_currency :: string where
  "reply_no_currency = ''{'' @ quoted ''total_amount'' @ '':250,'' @ quoted ''valid'' @ '':false}''"

definition json_no_currency :: json where
  "json_no_currency = JObj [(''total_amount'', JInt 250), (''valid'', JBool False)]"

text \<open>A reply that follows the prompt where no currency is visible: \<open>currency\<close> is \<open>null\<close>.\<close>

definition reply_null_currency :: string where
  "reply_null_currency =
     ''{'' @ quoted ''total_amount'' @ '':'' @ quoted ''1234.50'' @ '','' @ quoted ''currency'' @ '':null}''"

definition json_null_currency :: json where
  "json_null_currency = JObj [(''total_amount'', JStr ''1234.50''), (''currency'', JNull)]"

text \<open>A reply whose amount is too large for a double: the parser reads it as infinity.\<close>

definition reply_huge_amount :: string where
  "reply_huge_amount = ''{'' @ quoted ''total_amount'' @ '':1e999}''"

definition json_huge_amount :: json where
  "json_huge_amount = JObj [(''total_amount'', JFloat (Infinity False))]"

definition fake_loads :: "string \<Rightarrow> string + json" where
  "fake_loads s =
     (if s = reply_acme then Inr json_acme
      else if s = reply_no_amount then Inr json_no_amount
      else if s = reply_no_currency then Inr json_no_currency
      else if s = reply_null_currency then Inr json_null_currency
      else if s = reply_huge_amount then Inr json_huge_amount
      else Inl ''Invalid JSON'')"

definition text_pdf :: bytes where
  "text_pdf = [0x25, 0x50, 0x44, 0x46, 0x01]"

definition scanned_pdf :: bytes where
  "scanned_pdf = [0x25, 0x50, 0x44, 0x46, 0x02]"

definition fake_pages :: "bytes \<Rightarrow> string + string list" where
  "fake_pages b =
     (if b = text_pdf then Inr [''Acme Ltd '', ''Invoice #1001 Total: 250.00 USD '']
      else if b = scanned_pdf then Inr [''  '', '' '']
      else Inl ''Failed to open stream'')"

definition fake_library :: "string + string option list \<Rightarrow> library" where
  "fake_library answer =
     \<lparr>MODEL_NAME = ''fake-model'',
      fitz_pages = fake_pages,
      isspace = (\<lambda>c. c = CHR '' ''),
      b64encode = (\<lambda>b. ''AAAA''),
      chat_create = (\<lambda>req. answer),
      json_loads = fake_loads,
      int_as_float = (\<lambda>n. Finite (n < 0) (nat \<bar>n\<bar>) 0),
      lax_float = (\<lambda>j. None),
      lax_bool = (\<lambda>j. None),
      validation_message = (\<lambda>errs. ''validation error for InvoiceData'')\<rparr>"

definition upload :: "string \<Rightarrow> bytes \<Rightarrow> UploadFile" where
  "upload ctype b = \<lparr>content_type = Some ctype, file_content = b\<rparr>"

text \<open>A record with a numeric amount and one with a string amount.\<close>

definition invoice_number_amount :: InvoiceData where
  "invoice_number_amount =
     \<lparr>vendor = None, invoice_number = Some ''1001'', invoice_date = None, due_date = None,
      total_amount = AFloat (Finite False 2469 (- 1)), currency = Some ''USD'', valid = False\<rparr>"

definition invoice_string_amount :: InvoiceData where
  "invoice_string_amount =
     \<lparr>vendor = None, invoice_number = Some ''1001'', invoice_date = None, due_date = None,
      total_amount = AStr ''1234.50'', currency = Some ''USD'', valid = False\<rparr>"

text \<open>The record validated from the reply with the huge amount.\<close>

definition invoice_inf_amount :: InvoiceData where
  "invoice_inf_amount =
     \<lparr>vendor = None, invoice_number = None, invoice_date = None, due_date = None,
      total_amount = AFloat (Infinity False), currency = Some ''USD'', valid = True\<rparr>"

section \<open>Notions of the specification\<close>

text \<open>A JSON document has a field when it is an object with a member of that name.\<close>

definition has_field :: "json \<Rightarrow> string \<Rightarrow> bool" where
  "has_field j k = (case j of JObj kvs \<Rightarrow> k \<in> set (map fst kvs) | _ \<Rightarrow> False)"

definition is_digit :: "char \<Rightarrow> bool" where
  "is_digit c = (c \<in> set ''0123456789'')"

text \<open>
  A string fixed at two decimal places: an optional minus sign, one or more digits, a point,
  two digits.
\<close>

definition two_decimal_places :: "string \<Rightarrow> bool" where
  "two_decimal_places s =
     (case rev (if s \<noteq> [] \<and> hd s = CHR ''-'' then tl s else s) of
        d2 # d1 # p # ip \<Rightarrow>
          is_digit d2 \<and> is_digit d1 \<and> p = CHR ''.'' \<and> ip \<noteq> [] \<and> list_all is_digit ip
      | _ \<Rightarrow> False)"

text \<open>The number a string of digits denotes.\<close>

definition digit_val :: "char \<Rightarrow> nat" where
  "digit_val c = of_char c - 48"

definition read_nat :: "string \<Rightarrow> nat" where
  "read_nat s = foldl (\<lambda>a c. 10 * a + digit_val c) 0 s"

section \<open>Lemmas about the validator and the handler\<close>

lemma ap_Inr_iff: "ap f v = Inr y \<longleftrightarrow> (\<exists>g x. f = Inr g \<and> v = Inr x \<and> y = g x)"
  by (cases f; cases v) auto

lemma field_Inr_iff: "field name r = Inr x \<longleftrightarrow> r = Inr x"
  by (cases r) (auto simp: field_def)

lemma validate_fields_Inr:
  "validate_fields lib d = Inr r \<longleftrightarrow>
     (\<exists>v n i dd t c va.
        validate_optional_str (d ''vendor'') None = Inr v \<and>
        validate_optional_str (d ''invoice_number'') None = Inr n \<and>
        validate_optional_str (d ''invoice_date'') None = Inr i \<and>
        validate_optional_str (d ''due_date'') None = Inr dd \<and>
        validate_total_amount lib (d ''total_amount'') = Inr t \<and>
        validate_optional_str (d ''currency'') (Some ''USD'') = Inr c \<and>
        validate_bool lib (d ''valid'') True = Inr va \<and>
        r = mk_InvoiceData v n i dd t c va)"
  apply (simp add: validate_fields_def ap_Inr_iff field_Inr_iff)
  apply (rule iffI)
   apply (elim exE conjE)
   apply simp
  apply (elim exE conjE)
  apply simp
  done

lemma normalize_total_amount:
  "total_amount (normalize_invoice data) =
     (case total_amount data of AFloat x \<Rightarrow> AStr (format_2f x) | AStr s \<Rightarrow> AStr s)"
  by (simp add: normalize_invoice_def split: amount.splits)

lemma try_body_called:
  "ChatCreate req \<in> set (fst (try_body lib file b)) \<Longrightarrow>
   snd (try_body lib file b) = query_model lib req"
  by (simp add: try_body_def Let_def split: if_splits sum.splits)

lemma analyze_invoice_called:
  "ChatCreate req \<in> set (fst (analyze_invoice lib file)) \<Longrightarrow>
   snd (analyze_invoice lib file) = except_clauses (query_model lib req)"
  by (cases "try_body lib file (file_content file)")
     (use try_body_called [of req lib "file" "file_content file"] in
       \<open>simp add: analyze_invoice_def Let_def split: if_splits\<close>)

lemma analyze_invoice_Inr:
  "snd (analyze_invoice lib file) = Inr r \<Longrightarrow>
   \<exists>req result rest invoice.
     ChatCreate req \<in> set (fst (analyze_invoice lib file)) \<and>
     chat_create lib req = Inr (result # rest) \<and>
     model_validate_json lib result = Inr invoice \<and> r = normalize_invoice invoice"
  by (simp add: analyze_invoice_def try_body_def Let_def except_clauses_def query_model_def
        parse_response_def split: if_splits sum.splits list.splits exn.splits)

section \<open>Properties of the type check, the empty PDF and the Normalizer\<close>

text \<open>
  C2. An upload whose declared content type is not exactly \<open>image/png\<close>, \<open>image/jpeg\<close> or
  \<open>application/pdf\<close> (a missing content type included) is answered with the client error 400
  and the fixed detail \<open>Unsupported file type\<close>, whatever bytes the file holds and whatever
  the collaborators would do.
\<close>

theorem unsupported_type_is_400:
  "ctype \<notin> {Some ''image/png'', Some ''image/jpeg'', Some ''application/pdf''} \<Longrightarrow>
   snd (analyze_invoice lib \<lparr>content_type = ctype, file_content = b\<rparr>) =
     Inl (HTTPException 400 ''Unsupported file type'')"
  by (simp add: analyze_invoice_def allowed_types_def)

theorem unsupported_type_is_400_witness:
  "Some ''text/plain'' \<notin> {Some ''image/png'', Some ''image/jpeg'', Some ''application/pdf''} \<and>
   snd (analyze_invoice (fake_library (Inr [Some reply_acme]))
          \<lparr>content_type = Some ''text/plain'', file_content = text_pdf\<rparr>) =
     Inl (HTTPException 400 ''Unsupported file type'')"
proof -
  have h: "Some ''text/plain'' \<notin> {Some ''image/png'', Some ''image/jpeg'', Some ''application/pdf''}"
    by simp
  show ?thesis
    using h unsupported_type_is_400 [OF h, of "fake_library (Inr [Some reply_acme])" text_pdf]
    by simp
qed

text \<open>
  C3. For an upload of type \<open>application/pdf\<close> whose extracted, trimmed text is empty, the
  handler reads the file, runs the text extractor and answers with the client error 400 and the
  detail \<open>No readable text found in PDF (possibly scanned)\<close>. Nothing else happens: the model
  client is not called and there is no other attempt to read the document.
\<close>

theorem empty_pdf_text_is_400:
  "content_type file = Some ''application/pdf'' \<Longrightarrow>
   extract_text_from_pdf lib (file_content file) = Inr [] \<Longrightarrow>
   analyze_invoice lib file =
     ([FileRead, ExtractText],
      Inl (HTTPException 400 ''No readable text found in PDF (possibly scanned)'')) \<and>
   (\<forall>req. ChatCreate req \<notin> set (fst (analyze_invoice lib file)))"
  by (simp add: analyze_invoice_def try_body_def allowed_types_def except_clauses_def)

theorem empty_pdf_text_is_400_witness:
  "content_type (upload ''application/pdf'' scanned_pdf) = Some ''application/pdf'' \<and>
   extract_text_from_pdf (fake_library (Inr [Some reply_acme]))
     (file_content (upload ''application/pdf'' scanned_pdf)) = Inr [] \<and>
   analyze_invoice (fake_library (Inr [Some reply_acme])) (upload ''application/pdf'' scanned_pdf) =
     ([FileRead, ExtractText],
      Inl (HTTPException 400 ''No readable text found in PDF (possibly scanned)''))"
proof -
  let ?lib = "fake_library (Inr [Some reply_acme])"
  let ?file = "upload ''application/pdf'' scanned_pdf"
  have h1: "content_type ?file = Some ''application/pdf''"
    by (simp add: upload_def)
  have h2: "extract_text_from_pdf ?lib (file_content ?file) = Inr []"
    by (simp add: extract_text_from_pdf_def fake_library_def fake_pages_def upload_def strip_def
          scanned_pdf_def text_pdf_def)
  show ?thesis
    using h1 h2 empty_pdf_text_is_400 [OF h1 h2] by simp
qed



text \<open>
  C6. The Normalizer is idempotent: normalizing a normalized record changes nothing. A record
  whose \<open>total_amount\<close> is a string is a fixed point.
\<close>

theorem normalize_idempotent:
  "normalize_invoice (normalize_invoice data) = normalize_invoice data \<and>
   (total_amount data = AStr s \<longrightarrow> normalize_invoice data = data)"
  by (simp add: normalize_invoice_def split: amount.splits)

theorem normalize_idempotent_witness:
  "normalize_invoice (normalize_invoice invoice_number_amount) =
     normalize_invoice invoice_number_amount \<and>
   total_amount invoice_string_amount = AStr ''1234.50'' \<and>
   normalize_invoice invoice_string_amount = invoice_string_amount"
proof -
  have h: "total_amount invoice_string_amount = AStr ''1234.50''"
    by (simp add: invoice_string_amount_def)
  show ?thesis
    using h normalize_idempotent [of invoice_number_amount]
      normalize_idempotent [of invoice_string_amount "''1234.50''"]
    by simp
qed

text \<open>
  C9. The Normalizer changes no field but \<open>total_amount\<close>: vendor, invoice number, both dates,
  currency and the valid flag of its result are those of its argument.
\<close>

theorem normalize_frame:
  "vendor (normalize_invoice data) = vendor data \<and>
   invoice_number (normalize_invoice data) = invoice_number data \<and>
   invoice_date (normalize_invoice data) = invoice_date data \<and>
   due_date (normalize_invoice data) = due_date data \<and>
   currency (normalize_invoice data) = currency data \<and>
   valid (normalize_invoice data) = valid data"
  by (simp add: normalize_invoice_def split: amount.splits)

section \<open>The fake library evaluated\<close>

lemma format_250: "format_2f (Finite False 250 0) = ''250.00''"
  by (simp add: format_2f_def hundredths_def show_nat.simps digit_char_def)

lemma format_1234_5: "format_2f (Finite False 2469 (- 1)) = ''1234.50''"
  by (simp add: format_2f_def hundredths_def round_half_even_def show_nat.simps digit_char_def
        Let_def)

lemma fake_loads_simps:
  "fake_loads reply_acme = Inr json_acme"
  "fake_loads reply_no_amount = Inr json_no_amount"
  "fake_loads reply_no_currency = Inr json_no_currency"
  "fake_loads reply_null_currency = Inr json_null_currency"
  "fake_loads reply_huge_amount = Inr json_huge_amount"
  by (simp_all add: fake_loads_def reply_acme_def reply_no_amount_def reply_no_currency_def
        reply_null_currency_def reply_huge_amount_def quoted_def)

lemma validate_acme:
  "validate_model (fake_library a) json_acme =
     Inr \<lparr>vendor = Some ''Acme Ltd'', invoice_number = Some ''1001'', invoice_date = None,
          due_date = None, total_amount = AFloat (Finite False 250 0), currency = Some ''USD'',
          valid = True\<rparr>"
  by (simp add: validate_model_def get_member_def validate_fields_def json_acme_def field_def
        validate_optional_str_def validate_total_amount_def validate_bool_def mk_InvoiceData_def)

lemma validate_no_amount:
  "validate_model (fake_library a) json_no_amount = Inl [LineError ''total_amount'' Missing]"
  by (simp add: validate_model_def get_member_def validate_fields_def json_no_amount_def field_def
        validate_optional_str_def validate_total_amount_def validate_bool_def mk_InvoiceData_def)

lemma validate_no_currency:
  "validate_model (fake_library a) json_no_currency =
     Inr \<lparr>vendor = None, invoice_number = None, invoice_date = None, due_date = None,
          total_amount = AFloat (Finite False 250 0), currency = Some ''USD'', valid = False\<rparr>"
  by (simp add: validate_model_def get_member_def validate_fields_def json_no_currency_def field_def
        validate_optional_str_def validate_total_amount_def validate_bool_def mk_InvoiceData_def
        fake_library_def)

lemma validate_null_currency:
  "validate_model (fake_library a) json_null_currency =
     Inr \<lparr>vendor = None, invoice_number = None, invoice_date = None, due_date = None,
          total_amount = AStr ''1234.50'', currency = None, valid = True\<rparr>"
  by (simp add: validate_model_def get_member_def validate_fields_def json_null_currency_def field_def
        validate_optional_str_def validate_total_amount_def validate_bool_def mk_InvoiceData_def)

lemma validate_huge_amount:
  "validate_model (fake_library a) json_huge_amount = Inr invoice_inf_amount"
  by (simp add: validate_model_def get_member_def validate_fields_def json_huge_amount_def field_def
        validate_optional_str_def validate_total_amount_def validate_bool_def mk_InvoiceData_def
        invoice_inf_amount_def)

text \<open>Of two members with the same name the validator reads the last.\<close>

lemma duplicate_member_last_wins:
  "validate_model (fake_library a)
     (JObj [(''currency'', JNull), (''total_amount'', JStr ''1''), (''currency'', JStr ''EUR'')]) =
     Inr \<lparr>vendor = None, invoice_number = None, invoice_date = None, due_date = None,
          total_amount = AStr ''1'', currency = Some ''EUR'', valid = True\<rparr>"
  "validate_model (fake_library a)
     (JObj [(''total_amount'', JInt 1), (''total_amount'', JStr ''x'')]) =
     Inr \<lparr>vendor = None, invoice_number = None, invoice_date = None, due_date = None,
          total_amount = AStr ''x'', currency = Some ''USD'', valid = True\<rparr>"
  by (simp_all add: validate_model_def get_member_def validate_fields_def field_def
        validate_optional_str_def validate_total_amount_def validate_bool_def mk_InvoiceData_def)

lemma analyze_png:
  "analyze_invoice (fake_library a) (upload ''image/png'' b) =
     ([FileRead, ChatCreate (image_request (fake_library a) (Some ''image/png'') ''AAAA'')],
      except_clauses
        (query_model (fake_library a) (image_request (fake_library a) (Some ''image/png'') ''AAAA'')))"
  by (simp add: analyze_invoice_def try_body_def upload_def allowed_types_def Let_def
        fake_library_def)

lemma analyze_text_pdf:
  "analyze_invoice (fake_library a) (upload ''application/pdf'' text_pdf) =
     ([FileRead, ExtractText,
       ChatCreate (pdf_request (fake_library a) ''Acme Ltd Invoice #1001 Total: 250.00 USD'')],
      except_clauses
        (query_model (fake_library a)
           (pdf_request (fake_library a) ''Acme Ltd Invoice #1001 Total: 250.00 USD'')))"
  by (simp add: analyze_invoice_def try_body_def upload_def allowed_types_def Let_def
        fake_library_def extract_text_from_pdf_def fake_pages_def strip_def)

lemma query_fake_reply:
  "query_model (fake_library (Inr [Some s])) req =
     (case fake_loads s of
        Inl msg \<Rightarrow> Inl (Exception ''validation error for InvoiceData'')
      | Inr j \<Rightarrow>
          (case validate_model (fake_library (Inr [Some s])) j of
             Inl errs \<Rightarrow> Inl (Exception ''validation error for InvoiceData'')
           | Inr invoice \<Rightarrow> Inr (normalize_invoice invoice)))"
  by (simp add: query_model_def parse_response_def model_validate_json_def fake_library_def
        split: sum.splits)

lemma query_fake_failure:
  "query_model (fake_library (Inl msg)) req = Inl (Exception msg)"
  by (simp add: query_model_def fake_library_def)

lemma chat_create_fake: "chat_create (fake_library a) req = a"
  by (simp add: fake_library_def)

lemma json_loads_fake: "json_loads (fake_library a) = fake_loads"
  by (simp add: fake_library_def)

lemma validation_message_fake:
  "validation_message (fake_library a) errs = ''validation error for InvoiceData''"
  by (simp add: fake_library_def)

text \<open>
  The happy path for a PDF: the text is extracted, the model is asked once, and the amount
  \<open>250.0\<close> of its reply comes back as \<open>250.00\<close>, the other fields as they were.
\<close>

lemma pdf_happy_path:
  "analyze_invoice (fake_library (Inr [Some reply_acme])) (upload ''application/pdf'' text_pdf) =
     ([FileRead, ExtractText,
       ChatCreate (pdf_request (fake_library (Inr [Some reply_acme]))
                     ''Acme Ltd Invoice #1001 Total: 250.00 USD'')],
      Inr \<lparr>vendor = Some ''Acme Ltd'', invoice_number = Some ''1001'', invoice_date = None,
           due_date = None, total_amount = AStr ''250.00'', currency = Some ''USD'',
           valid = True\<rparr>)"
  by (simp add: analyze_text_pdf query_fake_reply fake_loads_simps validate_acme
        except_clauses_def normalize_invoice_def format_250)

section \<open>Properties of the validator\<close>

lemma get_member_None_iff: "get_member kvs k = None \<longleftrightarrow> k \<notin> set (map fst kvs)"
  by (simp add: get_member_def map_of_eq_None_iff)

lemma validate_model_missing:
  "\<not> has_field j ''total_amount'' \<Longrightarrow> \<exists>errs. validate_model lib j = Inl errs"
proof (cases "validate_model lib j")
  case (Inl errs)
  then show ?thesis by blast
next
  case (Inr invoice)
  assume a: "\<not> has_field j ''total_amount''"
  from Inr obtain kvs where j: "j = JObj kvs"
      and "validate_fields lib (get_member kvs) = Inr invoice"
    by (auto simp: validate_model_def split: json.splits)
  then obtain t where "validate_total_amount lib (get_member kvs ''total_amount'') = Inr t"
    by (auto simp: validate_fields_Inr)
  moreover from a j have "get_member kvs ''total_amount'' = None"
    by (simp add: has_field_def get_member_None_iff)
  ultimately show ?thesis
    by (simp add: validate_total_amount_def)
qed

lemma validate_total_amount_Inr:
  "validate_total_amount lib v = Inr t \<Longrightarrow> v \<noteq> None"
  by (cases v) (simp_all add: validate_total_amount_def)

lemma validate_model_Inr:
  "validate_model lib j = Inr invoice \<Longrightarrow>
   \<exists>kvs. j = JObj kvs \<and> validate_fields lib (get_member kvs) = Inr invoice"
  by (simp add: validate_model_def split: json.splits)

lemma model_validate_json_Inr:
  "model_validate_json lib result = Inr invoice \<Longrightarrow>
   \<exists>s kvs. result = Some s \<and> json_loads lib s = Inr (JObj kvs) \<and>
     validate_fields lib (get_member kvs) = Inr invoice"
  by (auto simp: model_validate_json_def split: option.splits sum.splits dest: validate_model_Inr)

text \<open>
  C1. Let the model be called and the content of its first choice be a string that the JSON
  parser accepts and that has no field \<open>total_amount\<close> (an object without that member, or no
  object at all). Then the validator rejects the document with a list of errors, and the
  handler answers with the server error 500 whose detail is the text of that validation
  error. Conversely, whenever the handler returns a record, the model's reply was a JSON
  object with the member \<open>total_amount\<close>, from which the record's \<open>total_amount\<close> was read.
\<close>

theorem missing_total_amount_is_500:
  "(ChatCreate req \<in> set (fst (analyze_invoice lib file)) \<and>
    chat_create lib req = Inr (Some s # rest) \<and>
    json_loads lib s = Inr j \<and> \<not> has_field j ''total_amount'' \<longrightarrow>
      (\<exists>errs. validate_model lib j = Inl errs \<and>
         model_validate_json lib (Some s) = Inl (validation_message lib errs) \<and>
         snd (analyze_invoice lib file) = Inl (HTTPException 500 (validation_message lib errs)))) \<and>
   (snd (analyze_invoice lib file) = Inr r \<longrightarrow>
      (\<exists>req' s' rest' j' invoice.
         ChatCreate req' \<in> set (fst (analyze_invoice lib file)) \<and>
         chat_create lib req' = Inr (Some s' # rest') \<and>
         json_loads lib s' = Inr j' \<and> has_field j' ''total_amount'' \<and>
         validate_model lib j' = Inr invoice \<and>
         total_amount r = total_amount (normalize_invoice invoice)))"
proof (intro conjI impI)
  assume a: "ChatCreate req \<in> set (fst (analyze_invoice lib file)) \<and>
    chat_create lib req = Inr (Some s # rest) \<and>
    json_loads lib s = Inr j \<and> \<not> has_field j ''total_amount''"
  then obtain errs where e: "validate_model lib j = Inl errs"
    using validate_model_missing by blast
  from a e have m: "model_validate_json lib (Some s) = Inl (validation_message lib errs)"
    by (simp add: model_validate_json_def)
  from a have "snd (analyze_invoice lib file) = except_clauses (query_model lib req)"
    by (simp add: analyze_invoice_called)
  with a m have "snd (analyze_invoice lib file) = Inl (HTTPException 500 (validation_message lib errs))"
    by (simp add: query_model_def parse_response_def except_clauses_def)
  with e m show "\<exists>errs. validate_model lib j = Inl errs \<and>
         model_validate_json lib (Some s) = Inl (validation_message lib errs) \<and>
         snd (analyze_invoice lib file) = Inl (HTTPException 500 (validation_message lib errs))"
    by blast
next
  assume "snd (analyze_invoice lib file) = Inr r"
  then obtain req' result rest' invoice where
    c: "ChatCreate req' \<in> set (fst (analyze_invoice lib file))"
      "chat_create lib req' = Inr (result # rest')"
      "model_validate_json lib result = Inr invoice" "r = normalize_invoice invoice"
    using analyze_invoice_Inr by blast
  from c(3) obtain s' kvs where
    v: "result = Some s'" "json_loads lib s' = Inr (JObj kvs)"
      "validate_fields lib (get_member kvs) = Inr invoice"
    using model_validate_json_Inr by blast
  from v(3) have "get_member kvs ''total_amount'' \<noteq> None"
    by (auto simp: validate_fields_Inr dest: validate_total_amount_Inr)
  then have "has_field (JObj kvs) ''total_amount''"
    by (simp add: has_field_def get_member_None_iff)
  moreover from v(3) have "validate_model lib (JObj kvs) = Inr invoice"
    by (simp add: validate_model_def)
  ultimately show "\<exists>req' s' rest' j' invoice.
         ChatCreate req' \<in> set (fst (analyze_invoice lib file)) \<and>
         chat_create lib req' = Inr (Some s' # rest') \<and>
         json_loads lib s' = Inr j' \<and> has_field j' ''total_amount'' \<and>
         validate_model lib j' = Inr invoice \<and>
         total_amount r = total_amount (normalize_invoice invoice)"
    using c v by blast
qed

lemma analyze_png_no_amount:
  "analyze_invoice (fake_library (Inr [Some reply_no_amount])) (upload ''image/png'' text_pdf) =
     ([FileRead,
       ChatCreate (image_request (fake_library (Inr [Some reply_no_amount])) (Some ''image/png'') ''AAAA'')],
      Inl (HTTPException 500 ''validation error for InvoiceData''))"
  by (simp add: analyze_png query_fake_reply fake_loads_simps validate_no_amount except_clauses_def)

lemma analyze_png_acme:
  "analyze_invoice (fake_library (Inr [Some reply_acme])) (upload ''image/png'' text_pdf) =
     ([FileRead,
       ChatCreate (image_request (fake_library (Inr [Some reply_acme])) (Some ''image/png'') ''AAAA'')],
      Inr \<lparr>vendor = Some ''Acme Ltd'', invoice_number = Some ''1001'', invoice_date = None,
           due_date = None, total_amount = AStr ''250.00'', currency = Some ''USD'',
           valid = True\<rparr>)"
  by (simp add: analyze_png query_fake_reply fake_loads_simps validate_acme except_clauses_def
        normalize_invoice_def format_250)

theorem missing_total_amount_is_500_witness:
  "ChatCreate (image_request (fake_library (Inr [Some reply_no_amount])) (Some ''image/png'') ''AAAA'')
     \<in> set (fst (analyze_invoice (fake_library (Inr [Some reply_no_amount]))
                 (upload ''image/png'' text_pdf))) \<and>
   chat_create (fake_library (Inr [Some reply_no_amount]))
     (image_request (fake_library (Inr [Some reply_no_amount])) (Some ''image/png'') ''AAAA'') =
     Inr [Some reply_no_amount] \<and>
   json_loads (fake_library (Inr [Some reply_no_amount])) reply_no_amount = Inr json_no_amount \<and>
   \<not> has_field json_no_amount ''total_amount'' \<and>
   snd (analyze_invoice (fake_library (Inr [Some reply_no_amount])) (upload ''image/png'' text_pdf)) =
     Inl (HTTPException 500 ''validation error for InvoiceData'') \<and>
   snd (analyze_invoice (fake_library (Inr [Some reply_acme])) (upload ''image/png'' text_pdf)) =
     Inr \<lparr>vendor = Some ''Acme Ltd'', invoice_number = Some ''1001'', invoice_date = None,
          due_date = None, total_amount = AStr ''250.00'', currency = Some ''USD'',
          valid = True\<rparr> \<and>
   has_field json_acme ''total_amount''"
proof -
  let ?L = "fake_library (Inr [Some reply_no_amount])"
  let ?F = "upload ''image/png'' text_pdf"
  let ?req = "image_request ?L (Some ''image/png'') ''AAAA''"
  let ?L' = "fake_library (Inr [Some reply_acme])"
  let ?r = "\<lparr>vendor = Some ''Acme Ltd'', invoice_number = Some ''1001'', invoice_date = None,
          due_date = None, total_amount = AStr ''250.00'', currency = Some ''USD'',
          valid = True\<rparr>"
  have h: "ChatCreate ?req \<in> set (fst (analyze_invoice ?L ?F)) \<and>
      chat_create ?L ?req = Inr [Some reply_no_amount] \<and>
      json_loads ?L reply_no_amount = Inr json_no_amount \<and>
      \<not> has_field json_no_amount ''total_amount''"
    by (simp add: analyze_png chat_create_fake json_loads_fake fake_loads_simps has_field_def
          json_no_amount_def)
  have s: "snd (analyze_invoice ?L' ?F) = Inr ?r"
    by (simp add: analyze_png_acme)
  from h missing_total_amount_is_500 [of ?req ?L ?F reply_no_amount "[]" json_no_amount ?r]
  have e: "snd (analyze_invoice ?L ?F) = Inl (HTTPException 500 ''validation error for InvoiceData'')"
    by (auto simp: validation_message_fake)
  from s missing_total_amount_is_500 [of ?req ?L' ?F reply_no_amount "[]" json_no_amount ?r]
  have f: "has_field json_acme ''total_amount''"
    by (auto simp: chat_create_fake json_loads_fake fake_loads_simps)
  from h s e f show ?thesis by simp
qed

text \<open>
  C10. Whenever the handler returns a record, its \<open>total_amount\<close> is a string. A JSON number
  that the validator accepted as the value of \<open>total_amount\<close>, an integer (which the
  validator turns into a float) as well as a float, reaches the caller only as the string the
  Normalizer made of it.
\<close>

theorem returned_total_amount_is_string:
  "(snd (analyze_invoice lib file) = Inr r \<longrightarrow> (\<exists>s. total_amount r = AStr s)) \<and>
   (validate_model lib (JObj kvs) = Inr invoice \<and> get_member kvs ''total_amount'' = Some (JInt n) \<longrightarrow>
      total_amount invoice = AFloat (int_as_float lib n) \<and>
      total_amount (normalize_invoice invoice) = AStr (format_2f (int_as_float lib n))) \<and>
   (validate_model lib (JObj kvs) = Inr invoice \<and> get_member kvs ''total_amount'' = Some (JFloat x) \<longrightarrow>
      total_amount invoice = AFloat x \<and>
      total_amount (normalize_invoice invoice) = AStr (format_2f x))"
proof (intro conjI impI)
  assume "snd (analyze_invoice lib file) = Inr r"
  then obtain invoice' where "r = normalize_invoice invoice'"
    using analyze_invoice_Inr by blast
  then show "\<exists>s. total_amount r = AStr s"
    by (simp add: normalize_total_amount split: amount.splits)
next
  assume a: "validate_model lib (JObj kvs) = Inr invoice \<and>
    get_member kvs ''total_amount'' = Some (JInt n)"
  then have "total_amount invoice = AFloat (int_as_float lib n)"
    by (auto simp: validate_model_def validate_fields_Inr validate_total_amount_def
          mk_InvoiceData_def)
  then show "total_amount invoice = AFloat (int_as_float lib n)"
    and "total_amount (normalize_invoice invoice) = AStr (format_2f (int_as_float lib n))"
    by (simp_all add: normalize_total_amount)
next
  assume a: "validate_model lib (JObj kvs) = Inr invoice \<and>
    get_member kvs ''total_amount'' = Some (JFloat x)"
  then have "total_amount invoice = AFloat x"
    by (auto simp: validate_model_def validate_fields_Inr validate_total_amount_def
          mk_InvoiceData_def)
  then show "total_amount invoice = AFloat x"
    and "total_amount (normalize_invoice invoice) = AStr (format_2f x)"
    by (simp_all add: normalize_total_amount)
qed

lemma analyze_png_no_currency:
  "analyze_invoice (fake_library (Inr [Some reply_no_currency])) (upload ''image/png'' text_pdf) =
     ([FileRead,
       ChatCreate (image_request (fake_library (Inr [Some reply_no_currency])) (Some ''image/png'') ''AAAA'')],
      Inr \<lparr>vendor = None, invoice_number = None, invoice_date = None, due_date = None,
           total_amount = AStr ''250.00'', currency = Some ''USD'', valid = False\<rparr>)"
  by (simp add: analyze_png query_fake_reply fake_loads_simps validate_no_currency
        except_clauses_def normalize_invoice_def format_250)

theorem returned_total_amount_is_string_witness:
  "snd (analyze_invoice (fake_library (Inr [Some reply_no_currency])) (upload ''image/png'' text_pdf)) =
     Inr \<lparr>vendor = None, invoice_number = None, invoice_date = None, due_date = None,
          total_amount = AStr ''250.00'', currency = Some ''USD'', valid = False\<rparr> \<and>
   validate_model (fake_library (Inr [Some reply_no_currency]))
     (JObj [(''total_amount'', JInt 250), (''valid'', JBool False)]) =
     Inr \<lparr>vendor = None, invoice_number = None, invoice_date = None, due_date = None,
          total_amount = AFloat (Finite False 250 0), currency = Some ''USD'', valid = False\<rparr> \<and>
   get_member [(''total_amount'', JInt 250), (''valid'', JBool False)] ''total_amount'' = Some (JInt 250) \<and>
   total_amount (normalize_invoice
     \<lparr>vendor = None, invoice_number = None, invoice_date = None, due_date = None,
      total_amount = AFloat (Finite False 250 0), currency = Some ''USD'', valid = False\<rparr>) =
     AStr ''250.00'' \<and>
   validate_model (fake_library (Inr [Some reply_acme]))
     (JObj [(''vendor'', JStr ''Acme Ltd''), (''invoice_number'', JStr ''1001''),
            (''invoice_date'', JNull), (''due_date'', JNull),
            (''total_amount'', JFloat (Finite False 250 0)), (''currency'', JStr ''USD''),
            (''valid'', JBool True)]) =
     Inr \<lparr>vendor = Some ''Acme Ltd'', invoice_number = Some ''1001'', invoice_date = None,
          due_date = None, total_amount = AFloat (Finite False 250 0), currency = Some ''USD'',
          valid = True\<rparr> \<and>
   (\<exists>s. total_amount
      \<lparr>vendor = None, invoice_number = None, invoice_date = None, due_date = None,
       total_amount = AStr ''250.00'', currency = Some ''USD'', valid = False\<rparr> = AStr s)"
proof -
  let ?L = "fake_library (Inr [Some reply_no_currency])"
  let ?F = "upload ''image/png'' text_pdf"
  let ?kvs = "[(''total_amount'', JInt 250), (''valid'', JBool False)]"
  let ?inv = "\<lparr>vendor = None, invoice_number = None, invoice_date = None, due_date = None,
      total_amount = AFloat (Finite False 250 0), currency = Some ''USD'', valid = False\<rparr>"
  let ?r = "\<lparr>vendor = None, invoice_number = None, invoice_date = None, due_date = None,
      total_amount = AStr ''250.00'', currency = Some ''USD'', valid = False\<rparr>"
  have h1: "snd (analyze_invoice ?L ?F) = Inr ?r"
    by (simp add: analyze_png_no_currency)
  have h2: "validate_model ?L (JObj ?kvs) = Inr ?inv"
    using validate_no_currency [of "Inr [Some reply_no_currency]"]
    by (simp add: json_no_currency_def)
  have h3: "get_member ?kvs ''total_amount'' = Some (JInt 250)"
    by (simp add: get_member_def)
  have h4: "validate_model (fake_library (Inr [Some reply_acme]))
     (JObj [(''vendor'', JStr ''Acme Ltd''), (''invoice_number'', JStr ''1001''),
            (''invoice_date'', JNull), (''due_date'', JNull),
            (''total_amount'', JFloat (Finite False 250 0)), (''currency'', JStr ''USD''),
            (''valid'', JBool True)]) =
     Inr \<lparr>vendor = Some ''Acme Ltd'', invoice_number = Some ''1001'', invoice_date = None,
          due_date = None, total_amount = AFloat (Finite False 250 0), currency = Some ''USD'',
          valid = True\<rparr>"
    using validate_acme [of "Inr [Some reply_acme]"] by (simp add: json_acme_def)
  have i: "int_as_float ?L 250 = Finite False 250 0"
    by (simp add: fake_library_def)
  from h1 h2 h3 returned_total_amount_is_string [of ?L ?F ?r ?kvs ?inv 250]
  have "(\<exists>s. total_amount ?r = AStr s) \<and> total_amount (normalize_invoice ?inv) = AStr ''250.00''"
    by (simp add: i format_250)
  with h1 h2 h3 h4 show ?thesis by simp
qed

section \<open>Properties of the handler's replies\<close>

lemma normalize_currency: "currency (normalize_invoice data) = currency data"
  by (simp add: normalize_invoice_def split: amount.splits)

lemma analyze_invoice_reply:
  assumes "ChatCreate req \<in> set (fst (analyze_invoice lib file))"
    and "chat_create lib req = Inr (result # rest)"
  shows "snd (analyze_invoice lib file) =
           (case model_validate_json lib result of
              Inl msg \<Rightarrow> Inl (HTTPException 500 msg)
            | Inr invoice \<Rightarrow> Inr (normalize_invoice invoice))"
  using assms
  by (simp add: analyze_invoice_called query_model_def parse_response_def except_clauses_def
        split: sum.splits)

text \<open>
  C5, as the code has it. When the model's reply is a JSON object without the member
  \<open>currency\<close>, the returned record's currency is the default \<open>USD\<close>. When the reply gives
  \<open>currency\<close> as \<open>null\<close> (in its last member of that name, should there be several), which
  is what the prompt asks for where no currency is visible, the
  returned record's currency is absent (\<open>None\<close>), not \<open>USD\<close>: the field is declared
  \<open>Optional[str]\<close>, so \<open>null\<close> is a value of its own and the default is not used.
\<close>

theorem absent_currency_defaults_to_usd:
  "ChatCreate req \<in> set (fst (analyze_invoice lib file)) \<and>
   chat_create lib req = Inr (Some s # rest) \<and>
   json_loads lib s = Inr (JObj kvs) \<and>
   snd (analyze_invoice lib file) = Inr r \<longrightarrow>
     (get_member kvs ''currency'' = None \<longrightarrow> currency r = Some ''USD'') \<and>
     (get_member kvs ''currency'' = Some JNull \<longrightarrow> currency r = None)"
proof (intro impI)
  assume a: "ChatCreate req \<in> set (fst (analyze_invoice lib file)) \<and>
   chat_create lib req = Inr (Some s # rest) \<and>
   json_loads lib s = Inr (JObj kvs) \<and>
   snd (analyze_invoice lib file) = Inr r"
  then have "(case model_validate_json lib (Some s) of
              Inl msg \<Rightarrow> Inl (HTTPException 500 msg)
            | Inr invoice \<Rightarrow> Inr (normalize_invoice invoice)) = Inr r"
    using analyze_invoice_reply [of req lib "file" "Some s" rest] by simp
  then obtain invoice where i: "model_validate_json lib (Some s) = Inr invoice"
      "r = normalize_invoice invoice"
    by (auto split: sum.splits)
  from i(1) a have "validate_fields lib (get_member kvs) = Inr invoice"
    by (auto dest: model_validate_json_Inr)
  then obtain c where c: "validate_optional_str (get_member kvs ''currency'') (Some ''USD'') = Inr c"
      "currency invoice = c"
    by (auto simp: validate_fields_Inr mk_InvoiceData_def)
  from c i(2) show "(get_member kvs ''currency'' = None \<longrightarrow> currency r = Some ''USD'') \<and>
     (get_member kvs ''currency'' = Some JNull \<longrightarrow> currency r = None)"
    by (auto simp: validate_optional_str_def normalize_currency)
qed

lemma analyze_png_null_currency:
  "analyze_invoice (fake_library (Inr [Some reply_null_currency])) (upload ''image/png'' text_pdf) =
     ([FileRead,
       ChatCreate (image_request (fake_library (Inr [Some reply_null_currency])) (Some ''image/png'') ''AAAA'')],
      Inr \<lparr>vendor = None, invoice_number = None, invoice_date = None, due_date = None,
           total_amount = AStr ''1234.50'', currency = None, valid = True\<rparr>)"
  by (simp add: analyze_png query_fake_reply fake_loads_simps validate_null_currency
        except_clauses_def normalize_invoice_def)

theorem absent_currency_defaults_to_usd_witness:
  "ChatCreate (image_request (fake_library (Inr [Some reply_no_currency])) (Some ''image/png'') ''AAAA'')
     \<in> set (fst (analyze_invoice (fake_library (Inr [Some reply_no_currency]))
                 (upload ''image/png'' text_pdf))) \<and>
   chat_create (fake_library (Inr [Some reply_no_currency]))
     (image_request (fake_library (Inr [Some reply_no_currency])) (Some ''image/png'') ''AAAA'') =
     Inr [Some reply_no_currency] \<and>
   json_loads (fake_library (Inr [Some reply_no_currency])) reply_no_currency =
     Inr (JObj [(''total_amount'', JInt 250), (''valid'', JBool False)]) \<and>
   snd (analyze_invoice (fake_library (Inr [Some reply_no_currency])) (upload ''image/png'' text_pdf)) =
     Inr \<lparr>vendor = None, invoice_number = None, invoice_date = None, due_date = None,
          total_amount = AStr ''250.00'', currency = Some ''USD'', valid = False\<rparr> \<and>
   get_member [(''total_amount'', JInt 250), (''valid'', JBool False)] ''currency'' = None \<and>
   currency \<lparr>vendor = None, invoice_number = None, invoice_date = None, due_date = None,
          total_amount = AStr ''250.00'', currency = Some ''USD'', valid = False\<rparr> = Some ''USD'' \<and>
   json_loads (fake_library (Inr [Some reply_null_currency])) reply_null_currency =
     Inr (JObj [(''total_amount'', JStr ''1234.50''), (''currency'', JNull)]) \<and>
   get_member [(''total_amount'', JStr ''1234.50''), (''currency'', JNull)] ''currency'' = Some JNull \<and>
   snd (analyze_invoice (fake_library (Inr [Some reply_null_currency])) (upload ''image/png'' text_pdf)) =
     Inr \<lparr>vendor = None, invoice_number = None, invoice_date = None, due_date = None,
          total_amount = AStr ''1234.50'', currency = None, valid = True\<rparr> \<and>
   currency \<lparr>vendor = None, invoice_number = None, invoice_date = None, due_date = None,
          total_amount = AStr ''1234.50'', currency = None, valid = True\<rparr> = None"
proof -
  let ?L = "fake_library (Inr [Some reply_no_currency])"
  let ?N = "fake_library (Inr [Some reply_null_currency])"
  let ?F = "upload ''image/png'' text_pdf"
  let ?kvs = "[(''total_amount'', JInt 250), (''valid'', JBool False)]"
  let ?nkvs = "[(''total_amount'', JStr ''1234.50''), (''currency'', JNull)]"
  let ?r = "\<lparr>vendor = None, invoice_number = None, invoice_date = None, due_date = None,
          total_amount = AStr ''250.00'', currency = Some ''USD'', valid = False\<rparr>"
  let ?n = "\<lparr>vendor = None, invoice_number = None, invoice_date = None, due_date = None,
          total_amount = AStr ''1234.50'', currency = None, valid = True\<rparr>"
  have h: "ChatCreate (image_request ?L (Some ''image/png'') ''AAAA'') \<in> set (fst (analyze_invoice ?L ?F)) \<and>
      chat_create ?L (image_request ?L (Some ''image/png'') ''AAAA'') = Inr [Some reply_no_currency] \<and>
      json_loads ?L reply_no_currency = Inr (JObj ?kvs) \<and>
      snd (analyze_invoice ?L ?F) = Inr ?r"
    by (simp add: analyze_png_no_currency chat_create_fake json_loads_fake fake_loads_simps
          json_no_currency_def)
  have g: "ChatCreate (image_request ?N (Some ''image/png'') ''AAAA'') \<in> set (fst (analyze_invoice ?N ?F)) \<and>
      chat_create ?N (image_request ?N (Some ''image/png'') ''AAAA'') = Inr [Some reply_null_currency] \<and>
      json_loads ?N reply_null_currency = Inr (JObj ?nkvs) \<and>
      snd (analyze_invoice ?N ?F) = Inr ?n"
    by (simp add: analyze_png_null_currency chat_create_fake json_loads_fake fake_loads_simps
          json_null_currency_def)
  have m: "get_member ?kvs ''currency'' = None" "get_member ?nkvs ''currency'' = Some JNull"
    by (simp_all add: get_member_def)
  from h m absent_currency_defaults_to_usd
    [of "image_request ?L (Some ''image/png'') ''AAAA''" ?L ?F reply_no_currency "[]" ?kvs ?r]
  have 1: "currency ?r = Some ''USD''"
    by blast
  from g m absent_currency_defaults_to_usd
    [of "image_request ?N (Some ''image/png'') ''AAAA''" ?N ?F reply_null_currency "[]" ?nkvs ?n]
  have 2: "currency ?n = None"
    by blast
  from h g m 1 2 show ?thesis by blast
qed

text \<open>
  A reply that follows the prompt and leaves the currency unspecified with \<open>null\<close>: the
  handler returns a record whose currency is \<open>None\<close>.
\<close>

theorem null_currency_is_not_usd:
  "fake_loads reply_null_currency =
     Inr (JObj [(''total_amount'', JStr ''1234.50''), (''currency'', JNull)]) \<and>
   snd (analyze_invoice (fake_library (Inr [Some reply_null_currency])) (upload ''image/png'' text_pdf)) =
     Inr \<lparr>vendor = None, invoice_number = None, invoice_date = None, due_date = None,
          total_amount = AStr ''1234.50'', currency = None, valid = True\<rparr> \<and>
   currency \<lparr>vendor = None, invoice_number = None, invoice_date = None, due_date = None,
          total_amount = AStr ''1234.50'', currency = None, valid = True\<rparr> \<noteq> Some ''USD''"
  by (simp add: analyze_png_null_currency fake_loads_simps json_null_currency_def)

lemma query_model_no_http: "query_model lib req \<noteq> Inl (HTTPException status detail)"
  by (simp add: query_model_def parse_response_def split: sum.splits list.splits)

lemma try_body_http:
  "snd (try_body lib file b) = Inl (HTTPException status detail) \<Longrightarrow>
   status = 400 \<and> detail = ''No readable text found in PDF (possibly scanned)''"
  by (simp add: try_body_def Let_def query_model_no_http split: if_splits sum.splits)

lemma except_clauses_cases [case_names http other ok]:
  obtains status detail where "r = Inl (HTTPException status detail)"
  | msg where "r = Inl (Exception msg)"
  | invoice where "r = Inr invoice"
proof (cases r)
  case (Inl a)
  then show ?thesis using that by (cases a) auto
next
  case (Inr b)
  then show ?thesis using that by auto
qed

text \<open>
  C7. Every exception raised in the \<open>try\<close> block that is not an \<open>HTTPException\<close> leaves the
  handler as \<open>HTTPException\<close> with status 500 and the exception's message as detail. This
  holds in particular for a failure of the model call, for a reply that fails validation, for
  an empty list of choices and for a failure of the text extractor; the response depends on
  the message only, not on the kind of failure. The two client errors keep their status 400
  and their detail. An error response is always one of these three.
\<close>

theorem errors_two_tier:
  "(content_type file \<in> set (map Some allowed_types) \<and>
    snd (try_body lib file (file_content file)) = Inl (Exception msg) \<longrightarrow>
      snd (analyze_invoice lib file) = Inl (HTTPException 500 msg)) \<and>
   (content_type file \<in> set (map Some allowed_types) \<and>
    snd (try_body lib file (file_content file)) = Inl (HTTPException status detail) \<longrightarrow>
      snd (analyze_invoice lib file) = Inl (HTTPException status detail)) \<and>
   (ChatCreate req \<in> set (fst (analyze_invoice lib file)) \<and> chat_create lib req = Inl msg \<longrightarrow>
      snd (analyze_invoice lib file) = Inl (HTTPException 500 msg)) \<and>
   (ChatCreate req \<in> set (fst (analyze_invoice lib file)) \<and>
    chat_create lib req = Inr (result # rest) \<and> model_validate_json lib result = Inl msg \<longrightarrow>
      snd (analyze_invoice lib file) = Inl (HTTPException 500 msg)) \<and>
   (ChatCreate req \<in> set (fst (analyze_invoice lib file)) \<and> chat_create lib req = Inr [] \<longrightarrow>
      snd (analyze_invoice lib file) = Inl (HTTPException 500 ''list index out of range'')) \<and>
   (content_type file = Some ''application/pdf'' \<and>
    extract_text_from_pdf lib (file_content file) = Inl msg \<longrightarrow>
      snd (analyze_invoice lib file) = Inl (HTTPException 500 msg)) \<and>
   (content_type file \<notin> set (map Some allowed_types) \<longrightarrow>
      snd (analyze_invoice lib file) = Inl (HTTPException 400 ''Unsupported file type'')) \<and>
   (content_type file = Some ''application/pdf'' \<and>
    extract_text_from_pdf lib (file_content file) = Inr [] \<longrightarrow>
      snd (analyze_invoice lib file) =
        Inl (HTTPException 400 ''No readable text found in PDF (possibly scanned)'')) \<and>
   (snd (analyze_invoice lib file) = Inl e \<longrightarrow>
      e = HTTPException 400 ''Unsupported file type'' \<or>
      e = HTTPException 400 ''No readable text found in PDF (possibly scanned)'' \<or>
      (\<exists>m. e = HTTPException 500 m))"
proof (intro conjI impI)
  assume "content_type file \<in> set (map Some allowed_types) \<and>
    snd (try_body lib file (file_content file)) = Inl (Exception msg)"
  then show "snd (analyze_invoice lib file) = Inl (HTTPException 500 msg)"
    by (cases "try_body lib file (file_content file)")
       (simp add: analyze_invoice_def except_clauses_def)
next
  assume "content_type file \<in> set (map Some allowed_types) \<and>
    snd (try_body lib file (file_content file)) = Inl (HTTPException status detail)"
  then show "snd (analyze_invoice lib file) = Inl (HTTPException status detail)"
    by (cases "try_body lib file (file_content file)")
       (simp add: analyze_invoice_def except_clauses_def)
next
  assume "ChatCreate req \<in> set (fst (analyze_invoice lib file)) \<and> chat_create lib req = Inl msg"
  then show "snd (analyze_invoice lib file) = Inl (HTTPException 500 msg)"
    using analyze_invoice_called [of req lib "file"]
    by (simp add: query_model_def except_clauses_def)
next
  assume "ChatCreate req \<in> set (fst (analyze_invoice lib file)) \<and>
    chat_create lib req = Inr (result # rest) \<and> model_validate_json lib result = Inl msg"
  then show "snd (analyze_invoice lib file) = Inl (HTTPException 500 msg)"
    using analyze_invoice_reply [of req lib "file" result rest] by simp
next
  assume "ChatCreate req \<in> set (fst (analyze_invoice lib file)) \<and> chat_create lib req = Inr []"
  then show "snd (analyze_invoice lib file) = Inl (HTTPException 500 ''list index out of range'')"
    using analyze_invoice_called [of req lib "file"]
    by (simp add: query_model_def parse_response_def except_clauses_def)
next
  assume "content_type file = Some ''application/pdf'' \<and>
    extract_text_from_pdf lib (file_content file) = Inl msg"
  then show "snd (analyze_invoice lib file) = Inl (HTTPException 500 msg)"
    by (simp add: analyze_invoice_def try_body_def allowed_types_def except_clauses_def)
next
  assume "content_type file \<notin> set (map Some allowed_types)"
  then show "snd (analyze_invoice lib file) = Inl (HTTPException 400 ''Unsupported file type'')"
    by (simp add: analyze_invoice_def)
next
  assume "content_type file = Some ''application/pdf'' \<and>
    extract_text_from_pdf lib (file_content file) = Inr []"
  then show "snd (analyze_invoice lib file) =
        Inl (HTTPException 400 ''No readable text found in PDF (possibly scanned)'')"
    by (simp add: analyze_invoice_def try_body_def allowed_types_def except_clauses_def)
next
  assume "snd (analyze_invoice lib file) = Inl e"
  then show "e = HTTPException 400 ''Unsupported file type'' \<or>
      e = HTTPException 400 ''No readable text found in PDF (possibly scanned)'' \<or>
      (\<exists>m. e = HTTPException 500 m)"
  proof (cases "content_type file \<in> set (map Some allowed_types)")
    case False
    with \<open>snd (analyze_invoice lib file) = Inl e\<close> show ?thesis
      by (simp add: analyze_invoice_def)
  next
    case True
    with \<open>snd (analyze_invoice lib file) = Inl e\<close>
    have "except_clauses (snd (try_body lib file (file_content file))) = Inl e"
      by (cases "try_body lib file (file_content file)") (simp add: analyze_invoice_def)
    then show ?thesis
      using try_body_http [of lib "file" "file_content file"]
      by (cases "snd (try_body lib file (file_content file))" rule: except_clauses_cases)
         (auto simp: except_clauses_def)
  qed
qed

lemma analyze_broken_pdf:
  "analyze_invoice (fake_library a) (upload ''application/pdf'' []) =
     ([FileRead, ExtractText], Inl (HTTPException 500 ''Failed to open stream''))"
  by (simp add: analyze_invoice_def try_body_def upload_def allowed_types_def Let_def
        fake_library_def extract_text_from_pdf_def fake_pages_def text_pdf_def scanned_pdf_def
        except_clauses_def)

theorem errors_two_tier_witness:
  "chat_create (fake_library (Inl ''validation error for InvoiceData''))
     (image_request (fake_library (Inl ''validation error for InvoiceData'')) (Some ''image/png'') ''AAAA'') =
     Inl ''validation error for InvoiceData'' \<and>
   snd (analyze_invoice (fake_library (Inl ''validation error for InvoiceData''))
          (upload ''image/png'' text_pdf)) =
     Inl (HTTPException 500 ''validation error for InvoiceData'') \<and>
   model_validate_json (fake_library (Inr [Some reply_no_amount])) (Some reply_no_amount) =
     Inl ''validation error for InvoiceData'' \<and>
   snd (analyze_invoice (fake_library (Inr [Some reply_no_amount])) (upload ''image/png'' text_pdf)) =
     Inl (HTTPException 500 ''validation error for InvoiceData'') \<and>
   snd (analyze_invoice (fake_library (Inr [])) (upload ''image/png'' text_pdf)) =
     Inl (HTTPException 500 ''list index out of range'') \<and>
   extract_text_from_pdf (fake_library (Inr [])) [] = Inl ''Failed to open stream'' \<and>
   snd (analyze_invoice (fake_library (Inr [])) (upload ''application/pdf'' [])) =
     Inl (HTTPException 500 ''Failed to open stream'') \<and>
   snd (analyze_invoice (fake_library (Inr [])) (upload ''text/plain'' text_pdf)) =
     Inl (HTTPException 400 ''Unsupported file type'') \<and>
   extract_text_from_pdf (fake_library (Inr [])) scanned_pdf = Inr [] \<and>
   snd (analyze_invoice (fake_library (Inr [])) (upload ''application/pdf'' scanned_pdf)) =
     Inl (HTTPException 400 ''No readable text found in PDF (possibly scanned)'')"
proof -
  let ?m = "''validation error for InvoiceData''"
  let ?U = "fake_library (Inl ?m)"
  let ?S = "fake_library (Inr [Some reply_no_amount])"
  let ?E = "fake_library (Inr [])"
  let ?png = "upload ''image/png'' text_pdf"
  let ?txt = "upload ''text/plain'' text_pdf"
  let ?broken = "upload ''application/pdf'' []"
  let ?scanned = "upload ''application/pdf'' scanned_pdf"
  let ?no_text = "''No readable text found in PDF (possibly scanned)''"
  have called: "ChatCreate (image_request (fake_library a) (Some ''image/png'') ''AAAA'')
      \<in> set (fst (analyze_invoice (fake_library a) ?png))" for a
    by (simp add: analyze_png)
  have u: "chat_create ?U (image_request ?U (Some ''image/png'') ''AAAA'') = Inl ?m"
    by (simp add: chat_create_fake)
  have s: "chat_create ?S (image_request ?S (Some ''image/png'') ''AAAA'') = Inr [Some reply_no_amount]"
    "model_validate_json ?S (Some reply_no_amount) = Inl ?m"
    by (simp_all add: chat_create_fake model_validate_json_def json_loads_fake fake_loads_simps
          validate_no_amount validation_message_fake)
  have e: "chat_create ?E (image_request ?E (Some ''image/png'') ''AAAA'') = Inr []"
    by (simp add: chat_create_fake)
  have b: "content_type ?broken = Some ''application/pdf''"
    "extract_text_from_pdf ?E (file_content ?broken) = Inl ''Failed to open stream''"
    by (simp_all add: upload_def extract_text_from_pdf_def fake_library_def fake_pages_def
          text_pdf_def scanned_pdf_def)
  have t: "content_type ?txt \<notin> set (map Some allowed_types)"
    by (simp add: upload_def allowed_types_def)
  have c: "content_type ?scanned = Some ''application/pdf''"
    "extract_text_from_pdf ?E (file_content ?scanned) = Inr []"
    by (simp_all add: upload_def extract_text_from_pdf_def fake_library_def fake_pages_def
          text_pdf_def scanned_pdf_def strip_def)
  have tb: "content_type ?scanned \<in> set (map Some allowed_types)"
    "snd (try_body ?E ?scanned (file_content ?scanned)) = Inl (HTTPException 400 ?no_text)"
    "content_type ?broken \<in> set (map Some allowed_types)"
    "snd (try_body ?E ?broken (file_content ?broken)) = Inl (Exception ''Failed to open stream'')"
    using b c by (simp_all add: try_body_def allowed_types_def)
  have 1: "snd (analyze_invoice ?U ?png) = Inl (HTTPException 500 ?m)"
    using called [of "Inl ?m"] u
      errors_two_tier [of ?png ?U ?m 0 "[]" "image_request ?U (Some ''image/png'') ''AAAA''"]
    by blast
  have 2: "snd (analyze_invoice ?S ?png) = Inl (HTTPException 500 ?m)"
    using called [of "Inr [Some reply_no_amount]"] s
      errors_two_tier [of ?png ?S ?m 0 "[]" "image_request ?S (Some ''image/png'') ''AAAA''"
        "Some reply_no_amount" "[]"]
    by blast
  have 3: "snd (analyze_invoice ?E ?png) = Inl (HTTPException 500 ''list index out of range'')"
    using called [of "Inr []"] e
      errors_two_tier [of ?png ?E ?m 0 "[]" "image_request ?E (Some ''image/png'') ''AAAA''"]
    by blast
  have 4: "snd (analyze_invoice ?E ?broken) = Inl (HTTPException 500 ''Failed to open stream'')"
    using b tb errors_two_tier [of ?broken ?E "''Failed to open stream''"]
    by blast
  have 5: "snd (analyze_invoice ?E ?txt) = Inl (HTTPException 400 ''Unsupported file type'')"
    using t errors_two_tier [of ?txt ?E] by blast
  have 6: "snd (analyze_invoice ?E ?scanned) = Inl (HTTPException 400 ?no_text)"
    using c tb errors_two_tier [of ?scanned ?E ?m 400 ?no_text] by blast
  from u s b c 1 2 3 4 5 6 show ?thesis
    by (simp add: upload_def)
qed

section \<open>The format of a normalized amount\<close>

lemma less_10_cases:
  "(d::nat) < 10 \<Longrightarrow> d = 0 \<or> d = 1 \<or> d = 2 \<or> d = 3 \<or> d = 4 \<or> d = 5 \<or> d = 6 \<or> d = 7 \<or> d = 8 \<or> d = 9"
  by arith

lemma digit_char_is_digit: "d < 10 \<Longrightarrow> is_digit (digit_char d)"
  by (drule less_10_cases) (auto simp: digit_char_def is_digit_def)

lemma digit_val_digit_char: "d < 10 \<Longrightarrow> digit_val (digit_char d) = d"
  by (drule less_10_cases) (auto simp: digit_char_def digit_val_def)

lemma is_digit_not_minus: "is_digit c \<Longrightarrow> c \<noteq> CHR ''-''"
  by (auto simp: is_digit_def)

lemma show_nat_not_Nil: "show_nat n \<noteq> []"
  by (subst show_nat.simps) simp

lemma show_nat_digits: "list_all is_digit (show_nat n)"
proof (induction n rule: show_nat.induct)
  case (1 n)
  show ?case
  proof (cases "n < 10")
    case True
    then show ?thesis
      by (subst show_nat.simps) (simp add: digit_char_is_digit)
  next
    case False
    with 1 show ?thesis
      by (subst show_nat.simps) (simp add: digit_char_is_digit)
  qed
qed

lemma read_nat_snoc: "read_nat (s @ [c]) = 10 * read_nat s + digit_val c"
  by (simp add: read_nat_def)

lemma read_nat_show_nat: "read_nat (show_nat n) = n"
proof (induction n rule: show_nat.induct)
  case (1 n)
  show ?case
  proof (cases "n < 10")
    case True
    then show ?thesis
      by (subst show_nat.simps) (simp add: read_nat_def digit_val_digit_char)
  next
    case False
    with 1 show ?thesis
      by (subst show_nat.simps) (simp add: read_nat_snoc digit_val_digit_char)
  qed
qed

lemma round_half_even_bound:
  assumes "0 < d"
  shows "2 * \<bar>int (round_half_even n d) * int d - int n\<bar> \<le> int d"
proof -
  define q r where "q = n div d" and "r = n mod d"
  have n: "int n = int q * int d + int r"
    unfolding q_def r_def by (metis div_mult_mod_eq of_nat_add of_nat_mult)
  have r: "r < d"
    using assms by (simp add: r_def)
  show ?thesis
  proof (cases "d < 2 * r \<or> (2 * r = d \<and> odd q)")
    case True
    then have "round_half_even n d = q + 1"
      by (simp add: round_half_even_def q_def r_def Let_def)
    with n r True show ?thesis
      by (auto simp: algebra_simps)
  next
    case False
    then have "round_half_even n d = q"
      by (simp add: round_half_even_def q_def r_def Let_def)
    with n r False show ?thesis
      by (auto simp: algebra_simps)
  qed
qed

lemma hundredths_nearest:
  "\<bar>real (hundredths m e) - 100 * (real m * 2 powr real_of_int e)\<bar> \<le> 1 / 2"
proof (cases "0 \<le> e")
  case True
  then have "2 powr real_of_int e = 2 ^ nat e"
    by (simp add: powr_real_of_int)
  with True show ?thesis
    by (simp add: hundredths_def)
next
  case False
  define d :: nat where "d = 2 ^ nat (- e)"
  have d: "0 < d"
    by (simp add: d_def)
  define q where "q = round_half_even (m * 100) d"
  have p: "2 powr real_of_int e = 1 / real d"
    using False by (simp add: powr_real_of_int d_def inverse_eq_divide)
  have "2 * \<bar>int q * int d - int (m * 100)\<bar> \<le> int d"
    unfolding q_def by (rule round_half_even_bound [OF d])
  then have "real_of_int (2 * \<bar>int q * int d - int (m * 100)\<bar>) \<le> real_of_int (int d)"
    by (rule of_int_le_iff [THEN iffD2])
  then have b: "2 * \<bar>real q * real d - real m * 100\<bar> \<le> real d"
    by simp
  have "real q - 100 * (real m * (1 / real d)) = (real q * real d - real m * 100) / real d"
    using d by (simp add: field_simps)
  then have "\<bar>real q - 100 * (real m * (1 / real d))\<bar> = \<bar>real q * real d - real m * 100\<bar> / real d"
    using d by (simp add: abs_divide)
  also have "\<dots> \<le> 1 / 2"
    using b d by (simp add: field_simps)
  finally have "\<bar>real q - 100 * (real m * (1 / real d))\<bar> \<le> 1 / 2" .
  moreover have "hundredths m e = q"
    using False by (simp add: hundredths_def q_def d_def)
  ultimately show ?thesis
    by (simp add: p)
qed

lemma format_2f_Finite:
  "format_2f (Finite neg m e) =
     (if neg then ''-'' else '''') @ show_nat (hundredths m e div 100) @ ''.'' @
     [digit_char (hundredths m e mod 100 div 10), digit_char (hundredths m e mod 10)]"
  by (simp add: format_2f_def Let_def)

lemma two_decimal_placesI:
  assumes "ip \<noteq> []" and "list_all is_digit ip" and "is_digit d1" and "is_digit d2"
  shows "two_decimal_places ((if neg then ''-'' else '''') @ ip @ ''.'' @ [d1, d2])"
proof -
  from assms obtain c cs where ip: "ip = c # cs" and c: "is_digit c"
    by (cases ip) auto
  then have "c \<noteq> CHR ''-''"
    by (simp add: is_digit_not_minus)
  with assms ip show ?thesis
    by (simp add: two_decimal_places_def)
qed

lemma read_nat_snoc2:
  "read_nat (s @ [a, b]) = 10 * (10 * read_nat s + digit_val a) + digit_val b"
  by (simp add: read_nat_def)

lemma hundreds_tens_units: "10 * (10 * (q div 100) + q mod 100 div 10) + q mod 10 = (q::nat)"
proof -
  have "q mod 100 mod 10 = q mod 10"
    by (rule mod_mod_cancel) simp
  then have "10 * (q mod 100 div 10) + q mod 10 = q mod 100"
    using div_mult_mod_eq [of "q mod 100" 10] by (simp add: mult.commute)
  moreover have "100 * (q div 100) + q mod 100 = q"
    using div_mult_mod_eq [of q 100] by (simp add: mult.commute)
  moreover have "10 * (10 * (q div 100) + q mod 100 div 10) + q mod 10 =
      100 * (q div 100) + (10 * (q mod 100 div 10) + q mod 10)"
    by (simp only: distrib_left mult.assoc [symmetric] add.assoc)
  ultimately show ?thesis
    by (simp only:)
qed

lemma tens_digit: "(q::nat) mod 100 div 10 < 10"
  using mod_less_divisor [of 100 q] by linarith

lemma read_nat_fraction:
  "read_nat (show_nat (q div 100) @ [digit_char (q mod 100 div 10), digit_char (q mod 10)]) = q"
proof -
  have "q mod 10 < 10"
    by simp
  with tens_digit [of q] show ?thesis
    by (simp only: read_nat_snoc2 read_nat_show_nat digit_val_digit_char hundreds_tens_units)
qed
lemma format_2f_Finite_shape:
  "\<exists>ip d1 d2.
     format_2f (Finite neg m e) = (if neg then ''-'' else '''') @ ip @ ''.'' @ [d1, d2] \<and>
     ip \<noteq> [] \<and> list_all is_digit (ip @ [d1, d2]) \<and>
     read_nat (ip @ [d1, d2]) = hundredths m e"
proof -
  let ?q = "hundredths m e"
  have "format_2f (Finite neg m e) =
      (if neg then ''-'' else '''') @ show_nat (?q div 100) @ ''.'' @
      [digit_char (?q mod 100 div 10), digit_char (?q mod 10)]"
    by (rule format_2f_Finite)
  moreover have "show_nat (?q div 100) \<noteq> []"
    by (rule show_nat_not_Nil)
  moreover have "list_all is_digit
      (show_nat (?q div 100) @ [digit_char (?q mod 100 div 10), digit_char (?q mod 10)])"
    by (simp add: show_nat_digits digit_char_is_digit tens_digit)
  moreover have "read_nat
      (show_nat (?q div 100) @ [digit_char (?q mod 100 div 10), digit_char (?q mod 10)]) = ?q"
    by (rule read_nat_fraction)
  ultimately show ?thesis
    by blast
qed
lemma format_2f_Finite_two_decimal_places: "two_decimal_places (format_2f (Finite neg m e))"
  unfolding format_2f_Finite
  by (intro two_decimal_placesI show_nat_not_Nil show_nat_digits digit_char_is_digit tens_digit)
     simp
lemma not_two_decimal_places:
  "\<not> two_decimal_places ''inf''" "\<not> two_decimal_places ''-inf''" "\<not> two_decimal_places ''nan''"
  by (simp_all add: two_decimal_places_def is_digit_def)

text \<open>
  C4, as the code has it. The Normalizer maps a finite numeric \<open>total_amount\<close> to the string
  of format \<open>.2f\<close>: a minus sign if the float is negative, the digits of the integer part, a
  point and two digits, which together denote the amount in hundredths, rounded to the
  nearest hundredth of the float's exact value (so the number 1234.5 becomes \<open>1234.50\<close>). A
  float that is infinite or not a number becomes \<open>inf\<close>, \<open>-inf\<close> or \<open>nan\<close>. A string
  \<open>total_amount\<close> is left as it is.
\<close>

theorem finite_amount_two_decimal_places:
  "(total_amount data = AFloat (Finite neg m e) \<longrightarrow>
      (\<exists>ip d1 d2.
         total_amount (normalize_invoice data) =
           AStr ((if neg then ''-'' else '''') @ ip @ ''.'' @ [d1, d2]) \<and>
         ip \<noteq> [] \<and> list_all is_digit (ip @ [d1, d2]) \<and>
         read_nat (ip @ [d1, d2]) = hundredths m e) \<and>
      (\<exists>t. total_amount (normalize_invoice data) = AStr t \<and> two_decimal_places t) \<and>
      \<bar>real (hundredths m e) - 100 * (real m * 2 powr real_of_int e)\<bar> \<le> 1 / 2) \<and>
   (total_amount data = AFloat (Finite False 2469 (- 1)) \<longrightarrow>
      total_amount (normalize_invoice data) = AStr ''1234.50'') \<and>
   (total_amount data = AFloat (Infinity neg) \<longrightarrow>
      total_amount (normalize_invoice data) = AStr (if neg then ''-inf'' else ''inf'')) \<and>
   (total_amount data = AFloat NaN \<longrightarrow> total_amount (normalize_invoice data) = AStr ''nan'') \<and>
   (total_amount data = AStr s \<longrightarrow> normalize_invoice data = data)"
proof (intro conjI impI)
  assume a: "total_amount data = AFloat (Finite neg m e)"
  then have n: "total_amount (normalize_invoice data) = AStr (format_2f (Finite neg m e))"
    by (simp add: normalize_total_amount)
  from format_2f_Finite_shape [of neg m e] n
  show "\<exists>ip d1 d2.
         total_amount (normalize_invoice data) =
           AStr ((if neg then ''-'' else '''') @ ip @ ''.'' @ [d1, d2]) \<and>
         ip \<noteq> [] \<and> list_all is_digit (ip @ [d1, d2]) \<and>
         read_nat (ip @ [d1, d2]) = hundredths m e"
    by (simp only:) blast
  from n show "\<exists>t. total_amount (normalize_invoice data) = AStr t \<and> two_decimal_places t"
    using format_2f_Finite_two_decimal_places [of neg m e] by blast
  show "\<bar>real (hundredths m e) - 100 * (real m * 2 powr real_of_int e)\<bar> \<le> 1 / 2"
    by (rule hundredths_nearest)
next
  assume "total_amount data = AFloat (Finite False 2469 (- 1))"
  then show "total_amount (normalize_invoice data) = AStr ''1234.50''"
    by (simp add: normalize_total_amount format_1234_5)
next
  assume "total_amount data = AFloat (Infinity neg)"
  then show "total_amount (normalize_invoice data) = AStr (if neg then ''-inf'' else ''inf'')"
    by (simp add: normalize_total_amount format_2f_def)
next
  assume "total_amount data = AFloat NaN"
  then show "total_amount (normalize_invoice data) = AStr ''nan''"
    by (simp add: normalize_total_amount format_2f_def)
next
  assume "total_amount data = AStr s"
  then show "normalize_invoice data = data"
    by (simp add: normalize_invoice_def)
qed

theorem finite_amount_two_decimal_places_witness:
  "total_amount invoice_number_amount = AFloat (Finite False 2469 (- 1)) \<and>
   total_amount (normalize_invoice invoice_number_amount) = AStr ''1234.50'' \<and>
   two_decimal_places ''1234.50'' \<and>
   total_amount invoice_inf_amount = AFloat (Infinity False) \<and>
   total_amount (normalize_invoice invoice_inf_amount) = AStr ''inf'' \<and>
   total_amount (normalize_invoice (invoice_inf_amount\<lparr>total_amount := AFloat NaN\<rparr>)) = AStr ''nan'' \<and>
   total_amount invoice_string_amount = AStr ''1234.50'' \<and>
   normalize_invoice invoice_string_amount = invoice_string_amount"
proof -
  have h: "total_amount invoice_number_amount = AFloat (Finite False 2469 (- 1))"
    "total_amount invoice_inf_amount = AFloat (Infinity False)"
    "total_amount (invoice_inf_amount\<lparr>total_amount := AFloat NaN\<rparr>) = AFloat NaN"
    "total_amount invoice_string_amount = AStr ''1234.50''"
    by (simp_all add: invoice_number_amount_def invoice_inf_amount_def invoice_string_amount_def)
  from h(1) finite_amount_two_decimal_places [of invoice_number_amount False 2469 "- 1"]
  have 1: "total_amount (normalize_invoice invoice_number_amount) = AStr ''1234.50''"
    and "\<exists>t. total_amount (normalize_invoice invoice_number_amount) = AStr t \<and> two_decimal_places t"
    by blast+
  then have 2: "two_decimal_places ''1234.50''"
    by simp
  from h(2) finite_amount_two_decimal_places [of invoice_inf_amount False]
  have 3: "total_amount (normalize_invoice invoice_inf_amount) = AStr ''inf''"
    by simp
  from h(3) finite_amount_two_decimal_places [of "invoice_inf_amount\<lparr>total_amount := AFloat NaN\<rparr>"]
  have 4: "total_amount (normalize_invoice (invoice_inf_amount\<lparr>total_amount := AFloat NaN\<rparr>)) =
      AStr ''nan''"
    by blast
  from h(4) finite_amount_two_decimal_places [of invoice_string_amount _ _ _ "''1234.50''"]
  have 5: "normalize_invoice invoice_string_amount = invoice_string_amount"
    by blast
  from h 1 2 3 4 5 show ?thesis
    by blast
qed

text \<open>
  A validated record with a numeric \<open>total_amount\<close>, the float infinity, whose normalized form
  is no string with two decimal places.
\<close>

theorem infinite_amount_not_two_decimal_places:
  "validate_model (fake_library (Inr [Some reply_huge_amount])) json_huge_amount =
     Inr invoice_inf_amount \<and>
   total_amount invoice_inf_amount = AFloat (Infinity False) \<and>
   total_amount (normalize_invoice invoice_inf_amount) = AStr ''inf'' \<and>
   \<not> two_decimal_places ''inf''"
  by (simp add: validate_huge_amount)
     (simp add: invoice_inf_amount_def normalize_invoice_def format_2f_def not_two_decimal_places)

end
